theory Spec2Isabelle
  imports Main
begin

section \<open>The HTTP to RPC gateway of the project service\<close>

text \<open>
  The development embeds the twelve binding functions of
  \<^verbatim>\<open>proto/generated-go/v1/project_service.pb.gw.go\<close>
  (\<^verbatim>\<open>request_ProjectService_*_0\<close> and \<^verbatim>\<open>local_request_ProjectService_*_0\<close>).
  Every function is translated branch by branch. What the functions receive from outside
  (the marshaler, the client or server stub, the request, the path parameters) is an
  argument here as it is there. The functions of the gateway library that they call
  (\<^verbatim>\<open>runtime.String\<close>, \<^verbatim>\<open>runtime.PopulateFieldFromPath\<close>,
  \<^verbatim>\<open>runtime.PopulateQueryParameters\<close>, \<^verbatim>\<open>runtime.FieldMaskFromRequestBody\<close>,
  \<^verbatim>\<open>utilities.IOReaderFactory\<close>) are not part of the source, so they are the fields of a
  record \<open>runtime\<close> that every binding function takes as its first argument.
\<close>

subsection \<open>Errors\<close>

text \<open>The status codes that the error mapper of the specification names.\<close>

datatype Code = OK | InvalidArgument | NotFound | AlreadyExists | PermissionDenied
  | Unauthenticated | ResourceExhausted | Unimplemented | Internal

text \<open>\<^verbatim>\<open>status.Errorf(code, format, args)\<close>: a status error with its code and message.\<close>

datatype error = Status Code string

text \<open>
  A Go \<^verbatim>\<open>error\<close> returned by the library or the decoder. \<^verbatim>\<open>io.EOF\<close> is the one value
  the source compares against; any other error is known by its message.
\<close>

datatype go_error = io_EOF | Err string

text \<open>The text that the format verb \<^verbatim>\<open>%v\<close> prints for an error.\<close>

fun Error :: "go_error \<Rightarrow> string" where
  "Error io_EOF = ''EOF''"
| "Error (Err m) = m"

subsection \<open>Messages\<close>

text \<open>
  Modelled from the spec: the declarations of the request and resource messages
  (\<^verbatim>\<open>project_service.pb.go\<close>) are missing. The records carry the fields that the source
  assigns (\<^verbatim>\<open>Name\<close>, \<^verbatim>\<open>Project\<close>, \<^verbatim>\<open>UpdateMask\<close>) and those the specification names
  (the title of a project, the caller-supplied identifier of a create request, the
  paging fields of a list request). A message-typed field is a pointer in the source,
  hence an \<open>option\<close> here, \<open>None\<close> being \<^verbatim>\<open>nil\<close>.
\<close>

record Project =
  Project_Name :: string
  Project_Title :: string

record FieldMask =
  Paths :: "string list"

record GetProjectRequest =
  GetProjectRequest_Name :: string

record ListProjectsRequest =
  ListProjectsRequest_PageSize :: int
  ListProjectsRequest_PageToken :: string
  ListProjectsRequest_ShowDeleted :: bool

record CreateProjectRequest =
  CreateProjectRequest_Project :: "Project option"
  CreateProjectRequest_ProjectId :: string

record UpdateProjectRequest =
  UpdateProjectRequest_Project :: "Project option"
  UpdateProjectRequest_UpdateMask :: "FieldMask option"

record DeleteProjectRequest =
  DeleteProjectRequest_Name :: string

record UndeleteProjectRequest =
  UndeleteProjectRequest_Name :: string

text \<open>The zero values that \<^verbatim>\<open>var protoReq T\<close> allocates.\<close>

definition zero_GetProjectRequest :: GetProjectRequest where
  "zero_GetProjectRequest = \<lparr>GetProjectRequest_Name = ''''\<rparr>"

definition zero_ListProjectsRequest :: ListProjectsRequest where
  "zero_ListProjectsRequest =
     \<lparr>ListProjectsRequest_PageSize = 0, ListProjectsRequest_PageToken = '''',
      ListProjectsRequest_ShowDeleted = False\<rparr>"

definition zero_CreateProjectRequest :: CreateProjectRequest where
  "zero_CreateProjectRequest =
     \<lparr>CreateProjectRequest_Project = None, CreateProjectRequest_ProjectId = ''''\<rparr>"

definition zero_UpdateProjectRequest :: UpdateProjectRequest where
  "zero_UpdateProjectRequest =
     \<lparr>UpdateProjectRequest_Project = None, UpdateProjectRequest_UpdateMask = None\<rparr>"

definition zero_DeleteProjectRequest :: DeleteProjectRequest where
  "zero_DeleteProjectRequest = \<lparr>DeleteProjectRequest_Name = ''''\<rparr>"

definition zero_UndeleteProjectRequest :: UndeleteProjectRequest where
  "zero_UndeleteProjectRequest = \<lparr>UndeleteProjectRequest_Name = ''''\<rparr>"

subsection \<open>The inbound request\<close>

text \<open>A JSON value; an object keeps its members in the order of the text, duplicates included.\<close>

datatype json = JNull | JBool bool | JNum int | JStr string
  | JArr "json list" | JObj "(string \<times> json) list"

text \<open>
  The body of an HTTP request, at the level of what a reader finds in it: no byte at all,
  the text of a JSON value, bytes that are no JSON text, or a stream whose read fails.
\<close>

datatype body = Body_Empty | Body_Json json | Body_Garbage string | Body_Unreadable string

text \<open>\<^verbatim>\<open>url.Values\<close>: the parsed form, each key with its values.\<close>

type_synonym Values = "(string \<times> string list) list"

text \<open>
  \<^verbatim>\<open>*http.Request\<close>, reduced to what the binding functions read: the body, and what
  \<^verbatim>\<open>req.ParseForm()\<close> yields on this request (the error, or the form then found in
  \<^verbatim>\<open>req.Form\<close>).
\<close>

record Request =
  Body :: body
  ParseForm :: "go_error + Values"

text \<open>\<^verbatim>\<open>runtime.ServerMetadata\<close>: header and trailer metadata, each a multimap.\<close>

type_synonym MD = "(string \<times> string list) list"

record ServerMetadata =
  HeaderMD :: MD
  TrailerMD :: MD

definition zero_ServerMetadata :: ServerMetadata where
  "zero_ServerMetadata = \<lparr>HeaderMD = [], TrailerMD = []\<rparr>"

text \<open>\<^verbatim>\<open>utilities.DoubleArray\<close>: the field filter of a route, as the source spells it out.\<close>

record DoubleArray =
  Encoding :: "(string \<times> int) list"
  Base :: "int list"
  Check :: "int list"

definition filter_ProjectService_ListProjects_0 :: DoubleArray where
  "filter_ProjectService_ListProjects_0 = \<lparr>Encoding = [], Base = [], Check = []\<rparr>"

definition filter_ProjectService_CreateProject_0 :: DoubleArray where
  "filter_ProjectService_CreateProject_0 =
     \<lparr>Encoding = [(''project'', 0)], Base = [1, 2, 0, 0], Check = [0, 1, 2, 2]\<rparr>"

definition filter_ProjectService_UpdateProject_0 :: DoubleArray where
  "filter_ProjectService_UpdateProject_0 =
     \<lparr>Encoding = [(''project'', 0), (''name'', 1)],
      Base = [1, 4, 5, 2, 0, 0, 0, 0], Check = [0, 1, 1, 2, 4, 2, 2, 3]\<rparr>"

subsection \<open>What the binding functions are given\<close>

text \<open>
  \<^verbatim>\<open>runtime.Marshaler\<close>, an argument of every binding function.
  \<^verbatim>\<open>marshaler.NewDecoder(r).Decode(target)\<close> writes into the target and returns an error or
  \<^verbatim>\<open>nil\<close>: here it returns both the error (\<open>None\<close> for \<^verbatim>\<open>nil\<close>) and the target as it leaves
  it. There is one field for each type of target that the source decodes into.
\<close>

record Marshaler =
  Decode_Project :: "body \<Rightarrow> Project option \<Rightarrow> go_error option \<times> Project option"
  Decode_UndeleteProjectRequest ::
    "body \<Rightarrow> UndeleteProjectRequest \<Rightarrow> go_error option \<times> UndeleteProjectRequest"

text \<open>
  The functions of the gateway library that the source calls. A function that updates the
  request in place returns the updated request. \<^verbatim>\<open>IOReaderFactory\<close> returns what every
  reader made by \<^verbatim>\<open>newReader()\<close> reads.
\<close>

record runtime =
  utilities_IOReaderFactory :: "body \<Rightarrow> go_error + body"
  runtime_String :: "string \<Rightarrow> go_error + string"
  runtime_FieldMaskFromRequestBody :: "body \<Rightarrow> Project option \<Rightarrow> go_error + FieldMask"
  runtime_PopulateFieldFromPath ::
    "UpdateProjectRequest \<Rightarrow> string \<Rightarrow> string \<Rightarrow> go_error + UpdateProjectRequest"
  runtime_PopulateQueryParameters_List ::
    "ListProjectsRequest \<Rightarrow> Values \<Rightarrow> DoubleArray \<Rightarrow> go_error + ListProjectsRequest"
  runtime_PopulateQueryParameters_Create ::
    "CreateProjectRequest \<Rightarrow> Values \<Rightarrow> DoubleArray \<Rightarrow> go_error + CreateProjectRequest"
  runtime_PopulateQueryParameters_Update ::
    "UpdateProjectRequest \<Rightarrow> Values \<Rightarrow> DoubleArray \<Rightarrow> go_error + UpdateProjectRequest"

text \<open>
  What a binding function returns: the message or the error, the metadata, and (the effect
  made explicit) the requests with which it invoked the service operation, in order.
\<close>

type_synonym ('req, 'resp) outcome = "'req list \<times> ServerMetadata \<times> (error + 'resp)"

text \<open>\<^verbatim>\<open>return nil, metadata, status.Errorf(codes.InvalidArgument, ...)\<close>, nothing invoked.\<close>

definition reject :: "string \<Rightarrow> ('req, 'resp) outcome" where
  "reject msg = ([], zero_ServerMetadata, Inl (Status InvalidArgument msg))"

text \<open>
  The last two lines of a remote binding function: the client stub is called with the
  request and fills in the metadata; its message and error are returned as they are.
\<close>

definition call_client ::
  "('req \<Rightarrow> ServerMetadata \<times> (error + 'resp)) \<Rightarrow> 'req \<Rightarrow> ('req, 'resp) outcome" where
  "call_client client protoReq = (case client protoReq of (md, res) \<Rightarrow> ([protoReq], md, res))"

text \<open>The last two lines of a local binding function: the metadata stays zero.\<close>

definition call_server :: "('req \<Rightarrow> error + 'resp) \<Rightarrow> 'req \<Rightarrow> ('req, 'resp) outcome" where
  "call_server server protoReq = ([protoReq], zero_ServerMetadata, server protoReq)"

subsection \<open>The binding functions\<close>

text \<open>
  Each definition follows its source function statement by statement; every
  \<^verbatim>\<open>return nil, metadata, status.Errorf(codes.InvalidArgument, ...)\<close> is a \<open>reject\<close> with
  the message that the format string builds. The context argument carries nothing that
  binding reads and is left out.
\<close>

text \<open>\<^verbatim>\<open>(*FieldMask).GetPaths\<close>: the paths, none for a \<^verbatim>\<open>nil\<close> mask.\<close>

fun GetPaths :: "FieldMask option \<Rightarrow> string list" where
  "GetPaths None = []"
| "GetPaths (Some fm) = Paths fm"

text \<open>
  The block that both update functions run after decoding the body (lines 189 to 195 and
  237 to 243): when the request has no mask or a mask without paths, the mask is derived
  from a fresh reader over the body and the decoded project; the error of the derivation
  is handed back to the caller, which rejects the request with it.
\<close>

definition derive_UpdateMask ::
  "runtime \<Rightarrow> body \<Rightarrow> UpdateProjectRequest \<Rightarrow> go_error + UpdateProjectRequest" where
  "derive_UpdateMask rt newReader protoReq =
     (if UpdateProjectRequest_UpdateMask protoReq = None
         \<or> length (GetPaths (UpdateProjectRequest_UpdateMask protoReq)) = 0
      then (case runtime_FieldMaskFromRequestBody rt newReader
                   (UpdateProjectRequest_Project protoReq) of
              Inl err \<Rightarrow> Inl err
            | Inr fieldMask \<Rightarrow>
                Inr (protoReq\<lparr>UpdateProjectRequest_UpdateMask := Some fieldMask\<rparr>))
      else Inr protoReq)"

definition request_ProjectService_GetProject_0 ::
  "runtime \<Rightarrow> Marshaler \<Rightarrow> (GetProjectRequest \<Rightarrow> ServerMetadata \<times> (error + 'resp)) \<Rightarrow> Request
     \<Rightarrow> (string \<rightharpoonup> string) \<Rightarrow> (GetProjectRequest, 'resp) outcome" where
  "request_ProjectService_GetProject_0 rt marshaler client req pathParams =
     (let protoReq = zero_GetProjectRequest in
      (case pathParams ''name'' of
        None \<Rightarrow> reject ''missing parameter name''
      | Some val \<Rightarrow>
          (case runtime_String rt val of
             Inl err \<Rightarrow> reject (''type mismatch, parameter: name, error: '' @ Error err)
           | Inr s \<Rightarrow> call_client client (protoReq\<lparr>GetProjectRequest_Name := s\<rparr>))))"

definition request_ProjectService_ListProjects_0 ::
  "runtime \<Rightarrow> Marshaler \<Rightarrow> (ListProjectsRequest \<Rightarrow> ServerMetadata \<times> (error + 'resp)) \<Rightarrow> Request
     \<Rightarrow> (string \<rightharpoonup> string) \<Rightarrow> (ListProjectsRequest, 'resp) outcome" where
  "request_ProjectService_ListProjects_0 rt marshaler client req pathParams =
     (let protoReq = zero_ListProjectsRequest in
      (case ParseForm req of
        Inl err \<Rightarrow> reject (Error err)
      | Inr form \<Rightarrow>
          (case runtime_PopulateQueryParameters_List rt protoReq form
                  filter_ProjectService_ListProjects_0 of
             Inl err \<Rightarrow> reject (Error err)
           | Inr protoReq \<Rightarrow> call_client client protoReq)))"

definition request_ProjectService_CreateProject_0 ::
  "runtime \<Rightarrow> Marshaler \<Rightarrow> (CreateProjectRequest \<Rightarrow> ServerMetadata \<times> (error + 'resp)) \<Rightarrow> Request
     \<Rightarrow> (string \<rightharpoonup> string) \<Rightarrow> (CreateProjectRequest, 'resp) outcome" where
  "request_ProjectService_CreateProject_0 rt marshaler client req pathParams =
     (let protoReq = zero_CreateProjectRequest in
      (case utilities_IOReaderFactory rt (Body req) of
        Inl berr \<Rightarrow> reject (Error berr)
      | Inr newReader \<Rightarrow>
          (case Decode_Project marshaler newReader (CreateProjectRequest_Project protoReq) of
             (derr, project) \<Rightarrow>
               if derr \<noteq> None \<and> derr \<noteq> Some io_EOF then reject (Error (the derr))
               else
                 (let protoReq = protoReq\<lparr>CreateProjectRequest_Project := project\<rparr> in
                  case ParseForm req of
                    Inl err \<Rightarrow> reject (Error err)
                  | Inr form \<Rightarrow>
                      (case runtime_PopulateQueryParameters_Create rt protoReq form
                              filter_ProjectService_CreateProject_0 of
                         Inl err \<Rightarrow> reject (Error err)
                       | Inr protoReq \<Rightarrow> call_client client protoReq)))))"

definition request_ProjectService_UpdateProject_0 ::
  "runtime \<Rightarrow> Marshaler \<Rightarrow> (UpdateProjectRequest \<Rightarrow> ServerMetadata \<times> (error + 'resp)) \<Rightarrow> Request
     \<Rightarrow> (string \<rightharpoonup> string) \<Rightarrow> (UpdateProjectRequest, 'resp) outcome" where
  "request_ProjectService_UpdateProject_0 rt marshaler client req pathParams =
     (let protoReq = zero_UpdateProjectRequest in
      (case utilities_IOReaderFactory rt (Body req) of
        Inl berr \<Rightarrow> reject (Error berr)
      | Inr newReader \<Rightarrow>
          (case Decode_Project marshaler newReader (UpdateProjectRequest_Project protoReq) of
             (derr, project) \<Rightarrow>
               if derr \<noteq> None \<and> derr \<noteq> Some io_EOF then reject (Error (the derr))
               else
                 (case derive_UpdateMask rt newReader
                         (protoReq\<lparr>UpdateProjectRequest_Project := project\<rparr>) of
                    Inl err \<Rightarrow> reject (Error err)
                  | Inr protoReq \<Rightarrow>
                      (case pathParams ''project.name'' of
                         None \<Rightarrow> reject ''missing parameter project.name''
                       | Some val \<Rightarrow>
                           (case runtime_PopulateFieldFromPath rt protoReq ''project.name'' val of
                              Inl err \<Rightarrow>
                                reject (''type mismatch, parameter: project.name, error: ''
                                        @ Error err)
                            | Inr protoReq \<Rightarrow>
                                (case ParseForm req of
                                   Inl err \<Rightarrow> reject (Error err)
                                 | Inr form \<Rightarrow>
                                     (case runtime_PopulateQueryParameters_Update rt protoReq form
                                             filter_ProjectService_UpdateProject_0 of
                                        Inl err \<Rightarrow> reject (Error err)
                                      | Inr protoReq \<Rightarrow> call_client client protoReq))))))))"

definition request_ProjectService_DeleteProject_0 ::
  "runtime \<Rightarrow> Marshaler \<Rightarrow> (DeleteProjectRequest \<Rightarrow> ServerMetadata \<times> (error + 'resp)) \<Rightarrow> Request
     \<Rightarrow> (string \<rightharpoonup> string) \<Rightarrow> (DeleteProjectRequest, 'resp) outcome" where
  "request_ProjectService_DeleteProject_0 rt marshaler client req pathParams =
     (let protoReq = zero_DeleteProjectRequest in
      (case pathParams ''name'' of
        None \<Rightarrow> reject ''missing parameter name''
      | Some val \<Rightarrow>
          (case runtime_String rt val of
             Inl err \<Rightarrow> reject (''type mismatch, parameter: name, error: '' @ Error err)
           | Inr s \<Rightarrow> call_client client (protoReq\<lparr>DeleteProjectRequest_Name := s\<rparr>))))"

definition request_ProjectService_UndeleteProject_0 ::
  "runtime \<Rightarrow> Marshaler \<Rightarrow> (UndeleteProjectRequest \<Rightarrow> ServerMetadata \<times> (error + 'resp)) \<Rightarrow> Request
     \<Rightarrow> (string \<rightharpoonup> string) \<Rightarrow> (UndeleteProjectRequest, 'resp) outcome" where
  "request_ProjectService_UndeleteProject_0 rt marshaler client req pathParams =
     (let protoReq = zero_UndeleteProjectRequest in
      (case utilities_IOReaderFactory rt (Body req) of
        Inl berr \<Rightarrow> reject (Error berr)
      | Inr newReader \<Rightarrow>
          (case Decode_UndeleteProjectRequest marshaler newReader protoReq of
             (derr, protoReq) \<Rightarrow>
               if derr \<noteq> None \<and> derr \<noteq> Some io_EOF then reject (Error (the derr))
               else
                 (case pathParams ''name'' of
                    None \<Rightarrow> reject ''missing parameter name''
                  | Some val \<Rightarrow>
                      (case runtime_String rt val of
                         Inl err \<Rightarrow>
                           reject (''type mismatch, parameter: name, error: '' @ Error err)
                       | Inr s \<Rightarrow> call_client client (protoReq\<lparr>UndeleteProjectRequest_Name := s\<rparr>))))))"

definition local_request_ProjectService_GetProject_0 ::
  "runtime \<Rightarrow> Marshaler \<Rightarrow> (GetProjectRequest \<Rightarrow> error + 'resp) \<Rightarrow> Request
     \<Rightarrow> (string \<rightharpoonup> string) \<Rightarrow> (GetProjectRequest, 'resp) outcome" where
  "local_request_ProjectService_GetProject_0 rt marshaler server req pathParams =
     (let protoReq = zero_GetProjectRequest in
      (case pathParams ''name'' of
        None \<Rightarrow> reject ''missing parameter name''
      | Some val \<Rightarrow>
          (case runtime_String rt val of
             Inl err \<Rightarrow> reject (''type mismatch, parameter: name, error: '' @ Error err)
           | Inr s \<Rightarrow> call_server server (protoReq\<lparr>GetProjectRequest_Name := s\<rparr>))))"

definition local_request_ProjectService_ListProjects_0 ::
  "runtime \<Rightarrow> Marshaler \<Rightarrow> (ListProjectsRequest \<Rightarrow> error + 'resp) \<Rightarrow> Request
     \<Rightarrow> (string \<rightharpoonup> string) \<Rightarrow> (ListProjectsRequest, 'resp) outcome" where
  "local_request_ProjectService_ListProjects_0 rt marshaler server req pathParams =
     (let protoReq = zero_ListProjectsRequest in
      (case ParseForm req of
        Inl err \<Rightarrow> reject (Error err)
      | Inr form \<Rightarrow>
          (case runtime_PopulateQueryParameters_List rt protoReq form
                  filter_ProjectService_ListProjects_0 of
             Inl err \<Rightarrow> reject (Error err)
           | Inr protoReq \<Rightarrow> call_server server protoReq)))"

definition local_request_ProjectService_CreateProject_0 ::
  "runtime \<Rightarrow> Marshaler \<Rightarrow> (CreateProjectRequest \<Rightarrow> error + 'resp) \<Rightarrow> Request
     \<Rightarrow> (string \<rightharpoonup> string) \<Rightarrow> (CreateProjectRequest, 'resp) outcome" where
  "local_request_ProjectService_CreateProject_0 rt marshaler server req pathParams =
     (let protoReq = zero_CreateProjectRequest in
      (case utilities_IOReaderFactory rt (Body req) of
        Inl berr \<Rightarrow> reject (Error berr)
      | Inr newReader \<Rightarrow>
          (case Decode_Project marshaler newReader (CreateProjectRequest_Project protoReq) of
             (derr, project) \<Rightarrow>
               if derr \<noteq> None \<and> derr \<noteq> Some io_EOF then reject (Error (the derr))
               else
                 (let protoReq = protoReq\<lparr>CreateProjectRequest_Project := project\<rparr> in
                  case ParseForm req of
                    Inl err \<Rightarrow> reject (Error err)
                  | Inr form \<Rightarrow>
                      (case runtime_PopulateQueryParameters_Create rt protoReq form
                              filter_ProjectService_CreateProject_0 of
                         Inl err \<Rightarrow> reject (Error err)
                       | Inr protoReq \<Rightarrow> call_server server protoReq)))))"

definition local_request_ProjectService_UpdateProject_0 ::
  "runtime \<Rightarrow> Marshaler \<Rightarrow> (UpdateProjectRequest \<Rightarrow> error + 'resp) \<Rightarrow> Request
     \<Rightarrow> (string \<rightharpoonup> string) \<Rightarrow> (UpdateProjectRequest, 'resp) outcome" where
  "local_request_ProjectService_UpdateProject_0 rt marshaler server req pathParams =
     (let protoReq = zero_UpdateProjectRequest in
      (case utilities_IOReaderFactory rt (Body req) of
        Inl berr \<Rightarrow> reject (Error berr)
      | Inr newReader \<Rightarrow>
          (case Decode_Project marshaler newReader (UpdateProjectRequest_Project protoReq) of
             (derr, project) \<Rightarrow>
               if derr \<noteq> None \<and> derr \<noteq> Some io_EOF then reject (Error (the derr))
               else
                 (case derive_UpdateMask rt newReader
                         (protoReq\<lparr>UpdateProjectRequest_Project := project\<rparr>) of
                    Inl err \<Rightarrow> reject (Error err)
                  | Inr protoReq \<Rightarrow>
                      (case pathParams ''project.name'' of
                         None \<Rightarrow> reject ''missing parameter project.name''
                       | Some val \<Rightarrow>
                           (case runtime_PopulateFieldFromPath rt protoReq ''project.name'' val of
                              Inl err \<Rightarrow>
                                reject (''type mismatch, parameter: project.name, error: ''
                                        @ Error err)
                            | Inr protoReq \<Rightarrow>
                                (case ParseForm req of
                                   Inl err \<Rightarrow> reject (Error err)
                                 | Inr form \<Rightarrow>
                                     (case runtime_PopulateQueryParameters_Update rt protoReq form
                                             filter_ProjectService_UpdateProject_0 of
                                        Inl err \<Rightarrow> reject (Error err)
                                      | Inr protoReq \<Rightarrow> call_server server protoReq))))))))"

definition local_request_ProjectService_DeleteProject_0 ::
  "runtime \<Rightarrow> Marshaler \<Rightarrow> (DeleteProjectRequest \<Rightarrow> error + 'resp) \<Rightarrow> Request
     \<Rightarrow> (string \<rightharpoonup> string) \<Rightarrow> (DeleteProjectRequest, 'resp) outcome" where
  "local_request_ProjectService_DeleteProject_0 rt marshaler server req pathParams =
     (let protoReq = zero_DeleteProjectRequest in
      (case pathParams ''name'' of
        None \<Rightarrow> reject ''missing parameter name''
      | Some val \<Rightarrow>
          (case runtime_String rt val of
             Inl err \<Rightarrow> reject (''type mismatch, parameter: name, error: '' @ Error err)
           | Inr s \<Rightarrow> call_server server (protoReq\<lparr>DeleteProjectRequest_Name := s\<rparr>))))"

definition local_request_ProjectService_UndeleteProject_0 ::
  "runtime \<Rightarrow> Marshaler \<Rightarrow> (UndeleteProjectRequest \<Rightarrow> error + 'resp) \<Rightarrow> Request
     \<Rightarrow> (string \<rightharpoonup> string) \<Rightarrow> (UndeleteProjectRequest, 'resp) outcome" where
  "local_request_ProjectService_UndeleteProject_0 rt marshaler server req pathParams =
     (let protoReq = zero_UndeleteProjectRequest in
      (case utilities_IOReaderFactory rt (Body req) of
        Inl berr \<Rightarrow> reject (Error berr)
      | Inr newReader \<Rightarrow>
          (case Decode_UndeleteProjectRequest marshaler newReader protoReq of
             (derr, protoReq) \<Rightarrow>
               if derr \<noteq> None \<and> derr \<noteq> Some io_EOF then reject (Error (the derr))
               else
                 (case pathParams ''name'' of
                    None \<Rightarrow> reject ''missing parameter name''
                  | Some val \<Rightarrow>
                      (case runtime_String rt val of
                         Inl err \<Rightarrow>
                           reject (''type mismatch, parameter: name, error: '' @ Error err)
                       | Inr s \<Rightarrow> call_server server (protoReq\<lparr>UndeleteProjectRequest_Name := s\<rparr>))))))"

subsection \<open>A marshaler and a library to run the binding functions on\<close>

text \<open>
  The marshaler and the library functions are arguments of the binding functions, and the
  theorems below hold for all of them. To evaluate a binding function on a request, one
  marshaler and one library are fixed here, following the contracts of the specification
  (sections 4.2 to 4.4).
\<close>

definition zero_Project :: Project where
  "zero_Project = \<lparr>Project_Name = [], Project_Title = []\<rparr>"

text \<open>
  Modelled from the spec: the JSON decoder behind \<^verbatim>\<open>runtime.Marshaler\<close> is missing. The
  members of the body object are written onto the fields of the target by name, in order;
  a member that names no field of the target is skipped; a member whose value does not
  have the type of its field is a decoding error.
\<close>

fun decode_Project_fields :: "(string \<times> json) list \<Rightarrow> Project \<Rightarrow> go_error + Project" where
  "decode_Project_fields [] p = Inr p"
| "decode_Project_fields ((k, v) # kvs) p =
     (if k = ''name'' then
        (case v of
           JStr s \<Rightarrow> decode_Project_fields kvs (p\<lparr>Project_Name := s\<rparr>)
         | _ \<Rightarrow> Inl (Err ''invalid value for string field name''))
      else if k = ''title'' then
        (case v of
           JStr s \<Rightarrow> decode_Project_fields kvs (p\<lparr>Project_Title := s\<rparr>)
         | _ \<Rightarrow> Inl (Err ''invalid value for string field title''))
      else decode_Project_fields kvs p)"

text \<open>
  Modelled from the spec: decoding onto a project (section 4.3). A body without a byte
  is the end of the stream, \<^verbatim>\<open>io.EOF\<close>, and leaves the target as it was; a JSON object is
  decoded onto the target, which is allocated when it is \<^verbatim>\<open>nil\<close>; anything else is a
  decoding error.
\<close>

fun json_Decode_Project :: "body \<Rightarrow> Project option \<Rightarrow> go_error option \<times> Project option" where
  "json_Decode_Project Body_Empty t = (Some io_EOF, t)"
| "json_Decode_Project (Body_Json (JObj kvs)) t =
     (case decode_Project_fields kvs (case t of None \<Rightarrow> zero_Project | Some p \<Rightarrow> p) of
        Inl e \<Rightarrow> (Some e, t)
      | Inr p \<Rightarrow> (None, Some p))"
| "json_Decode_Project (Body_Json _) t = (Some (Err ''unexpected token''), t)"
| "json_Decode_Project (Body_Garbage _) t = (Some (Err ''invalid character''), t)"
| "json_Decode_Project (Body_Unreadable m) t = (Some (Err m), t)"

fun decode_UndeleteProjectRequest_fields ::
  "(string \<times> json) list \<Rightarrow> UndeleteProjectRequest \<Rightarrow> go_error + UndeleteProjectRequest" where
  "decode_UndeleteProjectRequest_fields [] r = Inr r"
| "decode_UndeleteProjectRequest_fields ((k, v) # kvs) r =
     (if k = ''name'' then
        (case v of
           JStr s \<Rightarrow>
             decode_UndeleteProjectRequest_fields kvs (r\<lparr>UndeleteProjectRequest_Name := s\<rparr>)
         | _ \<Rightarrow> Inl (Err ''invalid value for string field name''))
      else decode_UndeleteProjectRequest_fields kvs r)"

text \<open>Modelled from the spec: decoding onto the whole undelete request (section 4.3).\<close>

fun json_Decode_UndeleteProjectRequest ::
  "body \<Rightarrow> UndeleteProjectRequest \<Rightarrow> go_error option \<times> UndeleteProjectRequest" where
  "json_Decode_UndeleteProjectRequest Body_Empty t = (Some io_EOF, t)"
| "json_Decode_UndeleteProjectRequest (Body_Json (JObj kvs)) t =
     (case decode_UndeleteProjectRequest_fields kvs t of
        Inl e \<Rightarrow> (Some e, t)
      | Inr r \<Rightarrow> (None, r))"
| "json_Decode_UndeleteProjectRequest (Body_Json _) t = (Some (Err ''unexpected token''), t)"
| "json_Decode_UndeleteProjectRequest (Body_Garbage _) t = (Some (Err ''invalid character''), t)"
| "json_Decode_UndeleteProjectRequest (Body_Unreadable m) t = (Some (Err m), t)"

definition json_Marshaler :: Marshaler where
  "json_Marshaler =
     \<lparr>Decode_Project = json_Decode_Project,
      Decode_UndeleteProjectRequest = json_Decode_UndeleteProjectRequest\<rparr>"




text \<open>The names of the declared fields of a project, the target of the update body.\<close>

definition Project_fields :: "string list" where
  "Project_fields = [''name'', ''title'']"

text \<open>
  Modelled from the spec: the walk of the update-mask deriver (section 4.4) over the
  top-level keys of the raw body object, in their order. A key that names a declared
  field of the target and is not yet in the mask is appended; any other key is passed
  over.
\<close>

fun walk_keys :: "string list \<Rightarrow> string list \<Rightarrow> string list \<Rightarrow> string list" where
  "walk_keys declared [] paths = paths"
| "walk_keys declared (k # ks) paths =
     walk_keys declared ks
       (if k \<in> set declared \<and> k \<notin> set paths then paths @ [k] else paths)"

text \<open>
  Modelled from the spec: \<^verbatim>\<open>runtime.FieldMaskFromRequestBody\<close> is missing. The mask is
  derived from the raw body, not from the decoded target: a JSON object gives the walk of
  its keys, a body without a byte or a JSON value that is no object gives the empty mask,
  and bytes that cannot be read as JSON are an error.
\<close>

fun deriveMask :: "string list \<Rightarrow> body \<Rightarrow> go_error + FieldMask" where
  "deriveMask declared (Body_Json (JObj kvs)) =
     Inr \<lparr>Paths = walk_keys declared (map fst kvs) []\<rparr>"
| "deriveMask declared (Body_Json _) = Inr \<lparr>Paths = []\<rparr>"
| "deriveMask declared Body_Empty = Inr \<lparr>Paths = []\<rparr>"
| "deriveMask declared (Body_Garbage _) = Inl (Err ''invalid character'')"
| "deriveMask declared (Body_Unreadable m) = Inl (Err m)"

definition spec_FieldMaskFromRequestBody :: "body \<Rightarrow> Project option \<Rightarrow> go_error + FieldMask" where
  "spec_FieldMaskFromRequestBody r msg = deriveMask Project_fields r"

text \<open>
  Modelled from the spec: \<^verbatim>\<open>runtime.PopulateFieldFromPath\<close> is missing (section 4.2). The
  dotted path is followed from the request; the project is created when it is absent; a
  path that names no field is an error.
\<close>

definition spec_PopulateFieldFromPath ::
  "UpdateProjectRequest \<Rightarrow> string \<Rightarrow> string \<Rightarrow> go_error + UpdateProjectRequest" where
  "spec_PopulateFieldFromPath r fieldPath rawValue =
     (let p = (case UpdateProjectRequest_Project r of None \<Rightarrow> zero_Project | Some p \<Rightarrow> p) in
      if fieldPath = ''project.name''
      then Inr (r\<lparr>UpdateProjectRequest_Project := Some (p\<lparr>Project_Name := rawValue\<rparr>)\<rparr>)
      else if fieldPath = ''project.title''
      then Inr (r\<lparr>UpdateProjectRequest_Project := Some (p\<lparr>Project_Title := rawValue\<rparr>)\<rparr>)
      else Inl (Err (''no field '' @ fieldPath)))"

text \<open>
  Modelled from the spec: \<^verbatim>\<open>utilities.DoubleArray.HasCommonPrefix\<close> is missing, and the
  specification does not describe the lookup in \<^verbatim>\<open>Base\<close> and \<^verbatim>\<open>Check\<close>. Following section 4.2
  (the filter of a route excludes the fields that the path or the body has consumed), a
  query key is taken as excluded when the first segment of its dotted path is one of the
  names that the filter encodes.
\<close>

definition first_segment :: "string \<Rightarrow> string" where
  "first_segment key = takeWhile (\<lambda>c. c \<noteq> CHR ''.'') key"

definition filter_excludes :: "DoubleArray \<Rightarrow> string \<Rightarrow> bool" where
  "filter_excludes flt key \<longleftrightarrow> first_segment key \<in> set (map fst (Encoding flt))"

text \<open>Parsing the raw value of a query parameter for the type of its field.\<close>

fun parse_bool :: "string \<Rightarrow> go_error + bool" where
  "parse_bool v =
     (if v = ''true'' then Inr True
      else if v = ''false'' then Inr False
      else Inl (Err (''invalid boolean value '' @ v)))"

definition digit :: "char \<Rightarrow> nat option" where
  "digit c =
     map_of [(CHR ''0'', 0), (CHR ''1'', 1), (CHR ''2'', 2), (CHR ''3'', 3), (CHR ''4'', 4),
             (CHR ''5'', 5), (CHR ''6'', 6), (CHR ''7'', 7), (CHR ''8'', 8), (CHR ''9'', 9)] c"

fun parse_digits :: "string \<Rightarrow> nat \<Rightarrow> nat option" where
  "parse_digits [] acc = Some acc"
| "parse_digits (c # cs) acc =
     (case digit c of None \<Rightarrow> None | Some d \<Rightarrow> parse_digits cs (10 * acc + d))"

text \<open>A decimal numeral for a 32-bit signed field; anything else is an error.\<close>

definition parse_int32 :: "string \<Rightarrow> go_error + int" where
  "parse_int32 v =
     (let (negative, ds) = (case v of c # cs \<Rightarrow> if c = CHR ''-'' then (True, cs) else (False, v)
                                      | [] \<Rightarrow> (False, v)) in
      if ds = [] then Inl (Err (''invalid integer value '' @ v))
      else (case parse_digits ds 0 of
              None \<Rightarrow> Inl (Err (''invalid integer value '' @ v))
            | Some n \<Rightarrow>
                (let i = (if negative then - int n else int n) in
                 if - 2147483648 \<le> i \<and> i \<le> 2147483647 then Inr i
                 else Inl (Err (''integer value out of range '' @ v)))))"

text \<open>The paths of a field mask given as one comma-separated value.\<close>

fun split_on :: "char \<Rightarrow> string \<Rightarrow> string list" where
  "split_on sep [] = [[]]"
| "split_on sep (c # cs) =
     (if c = sep then [] # split_on sep cs
      else (case split_on sep cs of
              [] \<Rightarrow> [[c]]
            | w # ws \<Rightarrow> (c # w) # ws))"

text \<open>
  Modelled from the spec: \<^verbatim>\<open>runtime.PopulateQueryParameters\<close> is missing (section 4.2).
  The keys of the form are taken in order. A key without a value and a key that the
  filter excludes are passed over; a key that names a top-level field of the request is
  bound from its first value, and a value that the type of the field cannot parse is an
  error; a key that names no field is ignored.
\<close>

fun spec_PopulateQueryParameters_List ::
  "ListProjectsRequest \<Rightarrow> Values \<Rightarrow> DoubleArray \<Rightarrow> go_error + ListProjectsRequest" where
  "spec_PopulateQueryParameters_List r [] flt = Inr r"
| "spec_PopulateQueryParameters_List r ((k, vs) # form) flt =
     (if vs = [] \<or> filter_excludes flt k then spec_PopulateQueryParameters_List r form flt
      else if k = ''page_size''
      then (case parse_int32 (hd vs) of
              Inl e \<Rightarrow> Inl e
            | Inr n \<Rightarrow>
                spec_PopulateQueryParameters_List (r\<lparr>ListProjectsRequest_PageSize := n\<rparr>) form flt)
      else if k = ''page_token''
      then spec_PopulateQueryParameters_List (r\<lparr>ListProjectsRequest_PageToken := hd vs\<rparr>) form flt
      else if k = ''show_deleted''
      then (case parse_bool (hd vs) of
              Inl e \<Rightarrow> Inl e
            | Inr b \<Rightarrow>
                spec_PopulateQueryParameters_List (r\<lparr>ListProjectsRequest_ShowDeleted := b\<rparr>) form flt)
      else spec_PopulateQueryParameters_List r form flt)"

fun spec_PopulateQueryParameters_Create ::
  "CreateProjectRequest \<Rightarrow> Values \<Rightarrow> DoubleArray \<Rightarrow> go_error + CreateProjectRequest" where
  "spec_PopulateQueryParameters_Create r [] flt = Inr r"
| "spec_PopulateQueryParameters_Create r ((k, vs) # form) flt =
     (if vs = [] \<or> filter_excludes flt k then spec_PopulateQueryParameters_Create r form flt
      else if k = ''project_id''
      then spec_PopulateQueryParameters_Create (r\<lparr>CreateProjectRequest_ProjectId := hd vs\<rparr>) form flt
      else spec_PopulateQueryParameters_Create r form flt)"

fun spec_PopulateQueryParameters_Update ::
  "UpdateProjectRequest \<Rightarrow> Values \<Rightarrow> DoubleArray \<Rightarrow> go_error + UpdateProjectRequest" where
  "spec_PopulateQueryParameters_Update r [] flt = Inr r"
| "spec_PopulateQueryParameters_Update r ((k, vs) # form) flt =
     (if vs = [] \<or> filter_excludes flt k then spec_PopulateQueryParameters_Update r form flt
      else if k = ''update_mask''
      then spec_PopulateQueryParameters_Update
             (r\<lparr>UpdateProjectRequest_UpdateMask := Some \<lparr>Paths = split_on CHR '','' (hd vs)\<rparr>\<rparr>)
             form flt
      else spec_PopulateQueryParameters_Update r form flt)"

text \<open>
  Modelled from the spec: \<^verbatim>\<open>utilities.IOReaderFactory\<close> and \<^verbatim>\<open>runtime.String\<close> are
  missing. The factory buffers the body so that it can be read again (section 4.3) and
  fails when the stream cannot be read; a string field takes the raw value as it is.
\<close>

fun spec_IOReaderFactory :: "body \<Rightarrow> go_error + body" where
  "spec_IOReaderFactory (Body_Unreadable m) = Inl (Err m)"
| "spec_IOReaderFactory b = Inr b"

definition spec_runtime :: runtime where
  "spec_runtime =
     \<lparr>utilities_IOReaderFactory = spec_IOReaderFactory,
      runtime_String = Inr,
      runtime_FieldMaskFromRequestBody = spec_FieldMaskFromRequestBody,
      runtime_PopulateFieldFromPath = spec_PopulateFieldFromPath,
      runtime_PopulateQueryParameters_List = spec_PopulateQueryParameters_List,
      runtime_PopulateQueryParameters_Create = spec_PopulateQueryParameters_Create,
      runtime_PopulateQueryParameters_Update = spec_PopulateQueryParameters_Update\<rparr>"

text \<open>A service stub for the examples: it answers every request with the same project.\<close>

definition some_Project :: Project where
  "some_Project = \<lparr>Project_Name = ''projects/my-proj'', Project_Title = ''Old''\<rparr>"

definition ok_server :: "'req \<Rightarrow> error + Project" where
  "ok_server r = Inr some_Project"


subsection \<open>When binding succeeds\<close>

text \<open>
  For each route, the relation between an inbound request and the typed request that the
  source function has built when every one of its steps has succeeded: the premises are
  the steps of the function, in its order, each on the request as the one before left it.
  The relation is the same for the remote and the local function of a route.
\<close>

inductive binds_GetProject :: "runtime \<Rightarrow> (string \<rightharpoonup> string) \<Rightarrow> GetProjectRequest \<Rightarrow> bool" where
  "pathParams ''name'' = Some val \<Longrightarrow> runtime_String rt val = Inr s \<Longrightarrow>
   binds_GetProject rt pathParams (zero_GetProjectRequest\<lparr>GetProjectRequest_Name := s\<rparr>)"

inductive binds_ListProjects :: "runtime \<Rightarrow> Request \<Rightarrow> ListProjectsRequest \<Rightarrow> bool" where
  "ParseForm req = Inr form \<Longrightarrow>
   runtime_PopulateQueryParameters_List rt zero_ListProjectsRequest form
     filter_ProjectService_ListProjects_0 = Inr protoReq \<Longrightarrow>
   binds_ListProjects rt req protoReq"

inductive binds_CreateProject ::
  "runtime \<Rightarrow> Marshaler \<Rightarrow> Request \<Rightarrow> CreateProjectRequest \<Rightarrow> bool" where
  "utilities_IOReaderFactory rt (Body req) = Inr newReader \<Longrightarrow>
   Decode_Project marshaler newReader None = (derr, project) \<Longrightarrow>
   derr = None \<or> derr = Some io_EOF \<Longrightarrow>
   ParseForm req = Inr form \<Longrightarrow>
   runtime_PopulateQueryParameters_Create rt
     (zero_CreateProjectRequest\<lparr>CreateProjectRequest_Project := project\<rparr>) form
     filter_ProjectService_CreateProject_0 = Inr protoReq \<Longrightarrow>
   binds_CreateProject rt marshaler req protoReq"

inductive binds_UpdateProject ::
  "runtime \<Rightarrow> Marshaler \<Rightarrow> Request \<Rightarrow> (string \<rightharpoonup> string) \<Rightarrow> UpdateProjectRequest \<Rightarrow> bool" where
  "utilities_IOReaderFactory rt (Body req) = Inr newReader \<Longrightarrow>
   Decode_Project marshaler newReader None = (derr, project) \<Longrightarrow>
   derr = None \<or> derr = Some io_EOF \<Longrightarrow>
   derive_UpdateMask rt newReader
     (zero_UpdateProjectRequest\<lparr>UpdateProjectRequest_Project := project\<rparr>) = Inr r1 \<Longrightarrow>
   pathParams ''project.name'' = Some val \<Longrightarrow>
   runtime_PopulateFieldFromPath rt r1 ''project.name'' val = Inr r2 \<Longrightarrow>
   ParseForm req = Inr form \<Longrightarrow>
   runtime_PopulateQueryParameters_Update rt r2 form
     filter_ProjectService_UpdateProject_0 = Inr protoReq \<Longrightarrow>
   binds_UpdateProject rt marshaler req pathParams protoReq"

inductive binds_DeleteProject :: "runtime \<Rightarrow> (string \<rightharpoonup> string) \<Rightarrow> DeleteProjectRequest \<Rightarrow> bool" where
  "pathParams ''name'' = Some val \<Longrightarrow> runtime_String rt val = Inr s \<Longrightarrow>
   binds_DeleteProject rt pathParams (zero_DeleteProjectRequest\<lparr>DeleteProjectRequest_Name := s\<rparr>)"

inductive binds_UndeleteProject ::
  "runtime \<Rightarrow> Marshaler \<Rightarrow> Request \<Rightarrow> (string \<rightharpoonup> string) \<Rightarrow> UndeleteProjectRequest \<Rightarrow> bool" where
  "utilities_IOReaderFactory rt (Body req) = Inr newReader \<Longrightarrow>
   Decode_UndeleteProjectRequest marshaler newReader zero_UndeleteProjectRequest = (derr, r1) \<Longrightarrow>
   derr = None \<or> derr = Some io_EOF \<Longrightarrow>
   pathParams ''name'' = Some val \<Longrightarrow>
   runtime_String rt val = Inr s \<Longrightarrow>
   binds_UndeleteProject rt marshaler req pathParams (r1\<lparr>UndeleteProjectRequest_Name := s\<rparr>)"

subsection \<open>The binding steps of the specification\<close>

text \<open>
  The specification (sections 4.5 and 5) describes binding as steps run in a fixed order on
  one request object: body decoding, update-mask derivation, path binding, query binding.
  The steps are written here as functions from the request before to the request after, or
  to the message of the failure; they are compared with the source functions below.
\<close>

type_synonym 'r step = "'r \<Rightarrow> string + 'r"

fun run_steps :: "'r step list \<Rightarrow> 'r \<Rightarrow> string + 'r" where
  "run_steps [] r = Inr r"
| "run_steps (s # ss) r = (case s r of Inl msg \<Rightarrow> Inl msg | Inr r' \<Rightarrow> run_steps ss r')"

text \<open>After the steps: a failure is rejected, a bound request is handed to the stub.\<close>

definition finish :: "('r \<Rightarrow> ('r, 'resp) outcome) \<Rightarrow> string + 'r \<Rightarrow> ('r, 'resp) outcome" where
  "finish call res = (case res of Inl msg \<Rightarrow> reject msg | Inr protoReq \<Rightarrow> call protoReq)"

definition body_decode_CreateProject ::
  "runtime \<Rightarrow> Marshaler \<Rightarrow> Request \<Rightarrow> CreateProjectRequest step" where
  "body_decode_CreateProject rt marshaler req protoReq =
     (case utilities_IOReaderFactory rt (Body req) of
        Inl berr \<Rightarrow> Inl (Error berr)
      | Inr newReader \<Rightarrow>
          (case Decode_Project marshaler newReader (CreateProjectRequest_Project protoReq) of
             (derr, project) \<Rightarrow>
               if derr \<noteq> None \<and> derr \<noteq> Some io_EOF then Inl (Error (the derr))
               else Inr (protoReq\<lparr>CreateProjectRequest_Project := project\<rparr>)))"

definition body_decode_UpdateProject ::
  "runtime \<Rightarrow> Marshaler \<Rightarrow> Request \<Rightarrow> UpdateProjectRequest step" where
  "body_decode_UpdateProject rt marshaler req protoReq =
     (case utilities_IOReaderFactory rt (Body req) of
        Inl berr \<Rightarrow> Inl (Error berr)
      | Inr newReader \<Rightarrow>
          (case Decode_Project marshaler newReader (UpdateProjectRequest_Project protoReq) of
             (derr, project) \<Rightarrow>
               if derr \<noteq> None \<and> derr \<noteq> Some io_EOF then Inl (Error (the derr))
               else Inr (protoReq\<lparr>UpdateProjectRequest_Project := project\<rparr>)))"

definition body_decode_UndeleteProject ::
  "runtime \<Rightarrow> Marshaler \<Rightarrow> Request \<Rightarrow> UndeleteProjectRequest step" where
  "body_decode_UndeleteProject rt marshaler req protoReq =
     (case utilities_IOReaderFactory rt (Body req) of
        Inl berr \<Rightarrow> Inl (Error berr)
      | Inr newReader \<Rightarrow>
          (case Decode_UndeleteProjectRequest marshaler newReader protoReq of
             (derr, protoReq') \<Rightarrow>
               if derr \<noteq> None \<and> derr \<noteq> Some io_EOF then Inl (Error (the derr))
               else Inr protoReq'))"

text \<open>The deriver reads the raw body again, through a second reader over the buffer.\<close>

definition mask_derivation_UpdateProject :: "runtime \<Rightarrow> Request \<Rightarrow> UpdateProjectRequest step" where
  "mask_derivation_UpdateProject rt req protoReq =
     (case utilities_IOReaderFactory rt (Body req) of
        Inl berr \<Rightarrow> Inl (Error berr)
      | Inr newReader \<Rightarrow>
          (case derive_UpdateMask rt newReader protoReq of
             Inl err \<Rightarrow> Inl (Error err)
           | Inr protoReq' \<Rightarrow> Inr protoReq'))"

definition path_binding_GetProject ::
  "runtime \<Rightarrow> (string \<rightharpoonup> string) \<Rightarrow> GetProjectRequest step" where
  "path_binding_GetProject rt pathParams protoReq =
     (case pathParams ''name'' of
        None \<Rightarrow> Inl ''missing parameter name''
      | Some val \<Rightarrow>
          (case runtime_String rt val of
             Inl err \<Rightarrow> Inl (''type mismatch, parameter: name, error: '' @ Error err)
           | Inr s \<Rightarrow> Inr (protoReq\<lparr>GetProjectRequest_Name := s\<rparr>)))"

definition path_binding_DeleteProject ::
  "runtime \<Rightarrow> (string \<rightharpoonup> string) \<Rightarrow> DeleteProjectRequest step" where
  "path_binding_DeleteProject rt pathParams protoReq =
     (case pathParams ''name'' of
        None \<Rightarrow> Inl ''missing parameter name''
      | Some val \<Rightarrow>
          (case runtime_String rt val of
             Inl err \<Rightarrow> Inl (''type mismatch, parameter: name, error: '' @ Error err)
           | Inr s \<Rightarrow> Inr (protoReq\<lparr>DeleteProjectRequest_Name := s\<rparr>)))"

definition path_binding_UndeleteProject ::
  "runtime \<Rightarrow> (string \<rightharpoonup> string) \<Rightarrow> UndeleteProjectRequest step" where
  "path_binding_UndeleteProject rt pathParams protoReq =
     (case pathParams ''name'' of
        None \<Rightarrow> Inl ''missing parameter name''
      | Some val \<Rightarrow>
          (case runtime_String rt val of
             Inl err \<Rightarrow> Inl (''type mismatch, parameter: name, error: '' @ Error err)
           | Inr s \<Rightarrow> Inr (protoReq\<lparr>UndeleteProjectRequest_Name := s\<rparr>)))"

definition path_binding_UpdateProject ::
  "runtime \<Rightarrow> (string \<rightharpoonup> string) \<Rightarrow> UpdateProjectRequest step" where
  "path_binding_UpdateProject rt pathParams protoReq =
     (case pathParams ''project.name'' of
        None \<Rightarrow> Inl ''missing parameter project.name''
      | Some val \<Rightarrow>
          (case runtime_PopulateFieldFromPath rt protoReq ''project.name'' val of
             Inl err \<Rightarrow> Inl (''type mismatch, parameter: project.name, error: '' @ Error err)
           | Inr protoReq' \<Rightarrow> Inr protoReq'))"

definition query_binding_ListProjects :: "runtime \<Rightarrow> Request \<Rightarrow> ListProjectsRequest step" where
  "query_binding_ListProjects rt req protoReq =
     (case ParseForm req of
        Inl err \<Rightarrow> Inl (Error err)
      | Inr form \<Rightarrow>
          (case runtime_PopulateQueryParameters_List rt protoReq form
                  filter_ProjectService_ListProjects_0 of
             Inl err \<Rightarrow> Inl (Error err)
           | Inr protoReq' \<Rightarrow> Inr protoReq'))"

definition query_binding_CreateProject :: "runtime \<Rightarrow> Request \<Rightarrow> CreateProjectRequest step" where
  "query_binding_CreateProject rt req protoReq =
     (case ParseForm req of
        Inl err \<Rightarrow> Inl (Error err)
      | Inr form \<Rightarrow>
          (case runtime_PopulateQueryParameters_Create rt protoReq form
                  filter_ProjectService_CreateProject_0 of
             Inl err \<Rightarrow> Inl (Error err)
           | Inr protoReq' \<Rightarrow> Inr protoReq'))"

definition query_binding_UpdateProject :: "runtime \<Rightarrow> Request \<Rightarrow> UpdateProjectRequest step" where
  "query_binding_UpdateProject rt req protoReq =
     (case ParseForm req of
        Inl err \<Rightarrow> Inl (Error err)
      | Inr form \<Rightarrow>
          (case runtime_PopulateQueryParameters_Update rt protoReq form
                  filter_ProjectService_UpdateProject_0 of
             Inl err \<Rightarrow> Inl (Error err)
           | Inr protoReq' \<Rightarrow> Inr protoReq'))"

subsection \<open>Further notions used in the statements\<close>



section \<open>Properties of the binding functions\<close>

subsection \<open>Each function either rejects or invokes\<close>

text \<open>
  For every route, when no typed request can be bound, both functions of the route reject
  the request without invoking anything; when a typed request is bound, both invoke
  their stub with exactly that request and return what the stub returns.
\<close>

lemma GetProject_rejects:
  "\<not> (\<exists>protoReq. binds_GetProject rt pathParams protoReq) \<Longrightarrow>
   (\<exists>msg. request_ProjectService_GetProject_0 rt marshaler client req pathParams = reject msg
      \<and> local_request_ProjectService_GetProject_0 rt marshaler server req pathParams = reject msg)"
  unfolding request_ProjectService_GetProject_0_def local_request_ProjectService_GetProject_0_def Let_def
  by (auto simp: binds_GetProject.simps zero_GetProjectRequest_def split: sum.split option.split prod.split)

lemma GetProject_invokes:
  "binds_GetProject rt pathParams protoReq \<Longrightarrow>
   request_ProjectService_GetProject_0 rt marshaler client req pathParams = call_client client protoReq
   \<and> local_request_ProjectService_GetProject_0 rt marshaler server req pathParams = call_server server protoReq"
  unfolding request_ProjectService_GetProject_0_def local_request_ProjectService_GetProject_0_def Let_def
  by (auto simp: binds_GetProject.simps zero_GetProjectRequest_def split: sum.split option.split prod.split)

lemma ListProjects_rejects:
  "\<not> (\<exists>protoReq. binds_ListProjects rt req protoReq) \<Longrightarrow>
   (\<exists>msg. request_ProjectService_ListProjects_0 rt marshaler client req pathParams = reject msg
      \<and> local_request_ProjectService_ListProjects_0 rt marshaler server req pathParams = reject msg)"
  unfolding request_ProjectService_ListProjects_0_def local_request_ProjectService_ListProjects_0_def Let_def
  by (auto simp: binds_ListProjects.simps zero_ListProjectsRequest_def split: sum.split option.split prod.split)

lemma ListProjects_invokes:
  "binds_ListProjects rt req protoReq \<Longrightarrow>
   request_ProjectService_ListProjects_0 rt marshaler client req pathParams = call_client client protoReq
   \<and> local_request_ProjectService_ListProjects_0 rt marshaler server req pathParams = call_server server protoReq"
  unfolding request_ProjectService_ListProjects_0_def local_request_ProjectService_ListProjects_0_def Let_def
  by (auto simp: binds_ListProjects.simps zero_ListProjectsRequest_def split: sum.split option.split prod.split)

lemma CreateProject_rejects:
  "\<not> (\<exists>protoReq. binds_CreateProject rt marshaler req protoReq) \<Longrightarrow>
   (\<exists>msg. request_ProjectService_CreateProject_0 rt marshaler client req pathParams = reject msg
      \<and> local_request_ProjectService_CreateProject_0 rt marshaler server req pathParams = reject msg)"
  unfolding request_ProjectService_CreateProject_0_def local_request_ProjectService_CreateProject_0_def Let_def
  by (auto simp: binds_CreateProject.simps zero_CreateProjectRequest_def split: sum.split option.split prod.split)

lemma CreateProject_invokes:
  "binds_CreateProject rt marshaler req protoReq \<Longrightarrow>
   request_ProjectService_CreateProject_0 rt marshaler client req pathParams = call_client client protoReq
   \<and> local_request_ProjectService_CreateProject_0 rt marshaler server req pathParams = call_server server protoReq"
  unfolding request_ProjectService_CreateProject_0_def local_request_ProjectService_CreateProject_0_def Let_def
  by (auto simp: binds_CreateProject.simps zero_CreateProjectRequest_def split: sum.split option.split prod.split)

lemma UpdateProject_rejects:
  "\<not> (\<exists>protoReq. binds_UpdateProject rt marshaler req pathParams protoReq) \<Longrightarrow>
   (\<exists>msg. request_ProjectService_UpdateProject_0 rt marshaler client req pathParams = reject msg
      \<and> local_request_ProjectService_UpdateProject_0 rt marshaler server req pathParams = reject msg)"
  unfolding request_ProjectService_UpdateProject_0_def local_request_ProjectService_UpdateProject_0_def Let_def
  by (auto simp: binds_UpdateProject.simps zero_UpdateProjectRequest_def split: sum.split option.split prod.split)

lemma UpdateProject_invokes:
  "binds_UpdateProject rt marshaler req pathParams protoReq \<Longrightarrow>
   request_ProjectService_UpdateProject_0 rt marshaler client req pathParams = call_client client protoReq
   \<and> local_request_ProjectService_UpdateProject_0 rt marshaler server req pathParams = call_server server protoReq"
  unfolding request_ProjectService_UpdateProject_0_def local_request_ProjectService_UpdateProject_0_def Let_def
  by (auto simp: binds_UpdateProject.simps zero_UpdateProjectRequest_def split: sum.split option.split prod.split)

lemma DeleteProject_rejects:
  "\<not> (\<exists>protoReq. binds_DeleteProject rt pathParams protoReq) \<Longrightarrow>
   (\<exists>msg. request_ProjectService_DeleteProject_0 rt marshaler client req pathParams = reject msg
      \<and> local_request_ProjectService_DeleteProject_0 rt marshaler server req pathParams = reject msg)"
  unfolding request_ProjectService_DeleteProject_0_def local_request_ProjectService_DeleteProject_0_def Let_def
  by (auto simp: binds_DeleteProject.simps zero_DeleteProjectRequest_def split: sum.split option.split prod.split)

lemma DeleteProject_invokes:
  "binds_DeleteProject rt pathParams protoReq \<Longrightarrow>
   request_ProjectService_DeleteProject_0 rt marshaler client req pathParams = call_client client protoReq
   \<and> local_request_ProjectService_DeleteProject_0 rt marshaler server req pathParams = call_server server protoReq"
  unfolding request_ProjectService_DeleteProject_0_def local_request_ProjectService_DeleteProject_0_def Let_def
  by (auto simp: binds_DeleteProject.simps zero_DeleteProjectRequest_def split: sum.split option.split prod.split)

lemma UndeleteProject_rejects:
  "\<not> (\<exists>protoReq. binds_UndeleteProject rt marshaler req pathParams protoReq) \<Longrightarrow>
   (\<exists>msg. request_ProjectService_UndeleteProject_0 rt marshaler client req pathParams = reject msg
      \<and> local_request_ProjectService_UndeleteProject_0 rt marshaler server req pathParams = reject msg)"
  unfolding request_ProjectService_UndeleteProject_0_def local_request_ProjectService_UndeleteProject_0_def Let_def
  by (auto simp: binds_UndeleteProject.simps zero_UndeleteProjectRequest_def split: sum.split option.split prod.split)

lemma UndeleteProject_invokes:
  "binds_UndeleteProject rt marshaler req pathParams protoReq \<Longrightarrow>
   request_ProjectService_UndeleteProject_0 rt marshaler client req pathParams = call_client client protoReq
   \<and> local_request_ProjectService_UndeleteProject_0 rt marshaler server req pathParams = call_server server protoReq"
  unfolding request_ProjectService_UndeleteProject_0_def local_request_ProjectService_UndeleteProject_0_def Let_def
  by (auto simp: binds_UndeleteProject.simps zero_UndeleteProjectRequest_def split: sum.split option.split prod.split)

text \<open>
  On the update route, which has every kind of step: each failure of a step leaves no
  typed request bound.
\<close>

lemma UpdateProject_step_failures:
  "utilities_IOReaderFactory rt (Body req) = Inl berr \<Longrightarrow>
     \<not> (\<exists>protoReq. binds_UpdateProject rt marshaler req pathParams protoReq)"
  "utilities_IOReaderFactory rt (Body req) = Inr newReader \<Longrightarrow>
   Decode_Project marshaler newReader None = (Some err, target) \<Longrightarrow> err \<noteq> io_EOF \<Longrightarrow>
     \<not> (\<exists>protoReq. binds_UpdateProject rt marshaler req pathParams protoReq)"
  "utilities_IOReaderFactory rt (Body req) = Inr newReader \<Longrightarrow>
   Decode_Project marshaler newReader None = (derr, project) \<Longrightarrow>
   runtime_FieldMaskFromRequestBody rt newReader project = Inl err \<Longrightarrow>
     \<not> (\<exists>protoReq. binds_UpdateProject rt marshaler req pathParams protoReq)"
  "pathParams ''project.name'' = None \<Longrightarrow>
     \<not> (\<exists>protoReq. binds_UpdateProject rt marshaler req pathParams protoReq)"
  "pathParams ''project.name'' = Some val \<Longrightarrow>
   (\<forall>r. \<exists>err. runtime_PopulateFieldFromPath rt r ''project.name'' val = Inl err) \<Longrightarrow>
     \<not> (\<exists>protoReq. binds_UpdateProject rt marshaler req pathParams protoReq)"
  "ParseForm req = Inl err \<Longrightarrow>
     \<not> (\<exists>protoReq. binds_UpdateProject rt marshaler req pathParams protoReq)"
  "ParseForm req = Inr form \<Longrightarrow>
   (\<forall>r. \<exists>err. runtime_PopulateQueryParameters_Update rt r form
                    filter_ProjectService_UpdateProject_0 = Inl err) \<Longrightarrow>
     \<not> (\<exists>protoReq. binds_UpdateProject rt marshaler req pathParams protoReq)"
  by (auto simp: binds_UpdateProject.simps derive_UpdateMask_def zero_UpdateProjectRequest_def
      split: sum.splits)
    (metis Inl_Inr_False)+

text \<open>
  Claim C5. On every route, in both invocation modes: if a binding or decoding step fails
  (no typed request is bound), the function returns a failure of kind
  \<open>InvalidArgument\<close> and the list of invocations is empty, so the service operation is
  never invoked; and when a typed request is bound, the service operation is invoked once
  with it and whatever it returns, a failure included, is returned unchanged.
\<close>

theorem binding_failure_rejects_and_service_result_passes:
  "(\<not> (\<exists>protoReq. binds_GetProject rt pathParams protoReq) \<longrightarrow>
      (\<exists>msg.
         request_ProjectService_GetProject_0 rt marshaler client_GetProject req pathParams
           = ([], zero_ServerMetadata, Inl (Status InvalidArgument msg))
         \<and> local_request_ProjectService_GetProject_0 rt marshaler server_GetProject req pathParams
           = ([], zero_ServerMetadata, Inl (Status InvalidArgument msg))))
   \<and> (\<forall>protoReq. binds_GetProject rt pathParams protoReq \<longrightarrow>
      request_ProjectService_GetProject_0 rt marshaler client_GetProject req pathParams
        = ([protoReq], fst (client_GetProject protoReq), snd (client_GetProject protoReq))
      \<and> local_request_ProjectService_GetProject_0 rt marshaler server_GetProject req pathParams
        = ([protoReq], zero_ServerMetadata, server_GetProject protoReq))
   \<and> (\<not> (\<exists>protoReq. binds_ListProjects rt req protoReq) \<longrightarrow>
      (\<exists>msg.
         request_ProjectService_ListProjects_0 rt marshaler client_ListProjects req pathParams
           = ([], zero_ServerMetadata, Inl (Status InvalidArgument msg))
         \<and> local_request_ProjectService_ListProjects_0 rt marshaler server_ListProjects req pathParams
           = ([], zero_ServerMetadata, Inl (Status InvalidArgument msg))))
   \<and> (\<forall>protoReq. binds_ListProjects rt req protoReq \<longrightarrow>
      request_ProjectService_ListProjects_0 rt marshaler client_ListProjects req pathParams
        = ([protoReq], fst (client_ListProjects protoReq), snd (client_ListProjects protoReq))
      \<and> local_request_ProjectService_ListProjects_0 rt marshaler server_ListProjects req pathParams
        = ([protoReq], zero_ServerMetadata, server_ListProjects protoReq))
   \<and> (\<not> (\<exists>protoReq. binds_CreateProject rt marshaler req protoReq) \<longrightarrow>
      (\<exists>msg.
         request_ProjectService_CreateProject_0 rt marshaler client_CreateProject req pathParams
           = ([], zero_ServerMetadata, Inl (Status InvalidArgument msg))
         \<and> local_request_ProjectService_CreateProject_0 rt marshaler server_CreateProject req pathParams
           = ([], zero_ServerMetadata, Inl (Status InvalidArgument msg))))
   \<and> (\<forall>protoReq. binds_CreateProject rt marshaler req protoReq \<longrightarrow>
      request_ProjectService_CreateProject_0 rt marshaler client_CreateProject req pathParams
        = ([protoReq], fst (client_CreateProject protoReq), snd (client_CreateProject protoReq))
      \<and> local_request_ProjectService_CreateProject_0 rt marshaler server_CreateProject req pathParams
        = ([protoReq], zero_ServerMetadata, server_CreateProject protoReq))
   \<and> (\<not> (\<exists>protoReq. binds_UpdateProject rt marshaler req pathParams protoReq) \<longrightarrow>
      (\<exists>msg.
         request_ProjectService_UpdateProject_0 rt marshaler client_UpdateProject req pathParams
           = ([], zero_ServerMetadata, Inl (Status InvalidArgument msg))
         \<and> local_request_ProjectService_UpdateProject_0 rt marshaler server_UpdateProject req pathParams
           = ([], zero_ServerMetadata, Inl (Status InvalidArgument msg))))
   \<and> (\<forall>protoReq. binds_UpdateProject rt marshaler req pathParams protoReq \<longrightarrow>
      request_ProjectService_UpdateProject_0 rt marshaler client_UpdateProject req pathParams
        = ([protoReq], fst (client_UpdateProject protoReq), snd (client_UpdateProject protoReq))
      \<and> local_request_ProjectService_UpdateProject_0 rt marshaler server_UpdateProject req pathParams
        = ([protoReq], zero_ServerMetadata, server_UpdateProject protoReq))
   \<and> (\<not> (\<exists>protoReq. binds_DeleteProject rt pathParams protoReq) \<longrightarrow>
      (\<exists>msg.
         request_ProjectService_DeleteProject_0 rt marshaler client_DeleteProject req pathParams
           = ([], zero_ServerMetadata, Inl (Status InvalidArgument msg))
         \<and> local_request_ProjectService_DeleteProject_0 rt marshaler server_DeleteProject req pathParams
           = ([], zero_ServerMetadata, Inl (Status InvalidArgument msg))))
   \<and> (\<forall>protoReq. binds_DeleteProject rt pathParams protoReq \<longrightarrow>
      request_ProjectService_DeleteProject_0 rt marshaler client_DeleteProject req pathParams
        = ([protoReq], fst (client_DeleteProject protoReq), snd (client_DeleteProject protoReq))
      \<and> local_request_ProjectService_DeleteProject_0 rt marshaler server_DeleteProject req pathParams
        = ([protoReq], zero_ServerMetadata, server_DeleteProject protoReq))
   \<and> (\<not> (\<exists>protoReq. binds_UndeleteProject rt marshaler req pathParams protoReq) \<longrightarrow>
      (\<exists>msg.
         request_ProjectService_UndeleteProject_0 rt marshaler client_UndeleteProject req pathParams
           = ([], zero_ServerMetadata, Inl (Status InvalidArgument msg))
         \<and> local_request_ProjectService_UndeleteProject_0 rt marshaler server_UndeleteProject req pathParams
           = ([], zero_ServerMetadata, Inl (Status InvalidArgument msg))))
   \<and> (\<forall>protoReq. binds_UndeleteProject rt marshaler req pathParams protoReq \<longrightarrow>
      request_ProjectService_UndeleteProject_0 rt marshaler client_UndeleteProject req pathParams
        = ([protoReq], fst (client_UndeleteProject protoReq), snd (client_UndeleteProject protoReq))
      \<and> local_request_ProjectService_UndeleteProject_0 rt marshaler server_UndeleteProject req pathParams
        = ([protoReq], zero_ServerMetadata, server_UndeleteProject protoReq))"
  using GetProject_rejects [of rt pathParams marshaler client_GetProject req server_GetProject]
    GetProject_invokes [of rt pathParams _ marshaler client_GetProject req server_GetProject]
    ListProjects_rejects [of rt req marshaler client_ListProjects pathParams server_ListProjects]
    ListProjects_invokes [of rt req _ marshaler client_ListProjects pathParams server_ListProjects]
    CreateProject_rejects [of rt marshaler req client_CreateProject pathParams server_CreateProject]
    CreateProject_invokes [of rt marshaler req _ client_CreateProject pathParams server_CreateProject]
    UpdateProject_rejects [of rt marshaler req pathParams client_UpdateProject server_UpdateProject]
    UpdateProject_invokes [of rt marshaler req pathParams _ client_UpdateProject server_UpdateProject]
    DeleteProject_rejects [of rt pathParams marshaler client_DeleteProject req server_DeleteProject]
    DeleteProject_invokes [of rt pathParams _ marshaler client_DeleteProject req server_DeleteProject]
    UndeleteProject_rejects [of rt marshaler req pathParams client_UndeleteProject server_UndeleteProject]
    UndeleteProject_invokes [of rt marshaler req pathParams _ client_UndeleteProject server_UndeleteProject]
  unfolding reject_def call_client_def call_server_def case_prod_unfold
  by blast

theorem binding_failure_rejects_and_service_result_passes_witness:
  "binds_GetProject spec_runtime [''name'' \<mapsto> ''projects/my-proj'']
     \<lparr>GetProjectRequest_Name = ''projects/my-proj''\<rparr>
   \<and> local_request_ProjectService_GetProject_0 spec_runtime json_Marshaler
         (\<lambda>r. Inl (Status NotFound ''no such project'') :: error + Project)
         \<lparr>Body = Body_Empty, ParseForm = Inr []\<rparr> [''name'' \<mapsto> ''projects/my-proj'']
       = ([\<lparr>GetProjectRequest_Name = ''projects/my-proj''\<rparr>], zero_ServerMetadata,
          Inl (Status NotFound ''no such project''))
   \<and> \<not> (\<exists>protoReq. binds_UpdateProject spec_runtime json_Marshaler
           \<lparr>Body = Body_Empty, ParseForm = Inr []\<rparr> [''name'' \<mapsto> ''projects/my-proj''] protoReq)
   \<and> (\<exists>msg. local_request_ProjectService_UpdateProject_0 spec_runtime json_Marshaler
           (ok_server :: UpdateProjectRequest \<Rightarrow> error + Project)
           \<lparr>Body = Body_Empty, ParseForm = Inr []\<rparr> [''name'' \<mapsto> ''projects/my-proj'']
         = ([], zero_ServerMetadata, Inl (Status InvalidArgument msg)))"
proof -
  let ?pp = "[''name'' \<mapsto> ''projects/my-proj'']"
  let ?req = "\<lparr>Body = Body_Empty, ParseForm = Inr []\<rparr>"
  have b: "binds_GetProject spec_runtime ?pp \<lparr>GetProjectRequest_Name = ''projects/my-proj''\<rparr>"
    by (simp add: binds_GetProject.simps spec_runtime_def zero_GetProjectRequest_def)
  have n: "\<not> (\<exists>protoReq. binds_UpdateProject spec_runtime json_Marshaler ?req ?pp protoReq)"
    by (simp add: binds_UpdateProject.simps)
  show ?thesis
    using b n
      binding_failure_rejects_and_service_result_passes
        [where rt = spec_runtime and marshaler = json_Marshaler and req = ?req
           and pathParams = ?pp
           and server_GetProject = "\<lambda>r. Inl (Status NotFound ''no such project'') :: error + Project"
           and server_UpdateProject = "ok_server :: UpdateProjectRequest \<Rightarrow> error + Project"]
    by blast
qed

text \<open>
  Claim C6. On every route and for every HTTP request, the remote function and the local
  function bind alike: either both reject the request with the same failure, or both have
  built the same typed request, which the remote one hands to the client stub and the
  local one to the server implementation.
\<close>

theorem remote_and_local_bind_alike:
  "((\<exists>msg. request_ProjectService_GetProject_0 rt marshaler client_GetProject req pathParams = reject msg
        \<and> local_request_ProjectService_GetProject_0 rt marshaler server_GetProject req pathParams = reject msg)
    \<or> (\<exists>protoReq.
        request_ProjectService_GetProject_0 rt marshaler client_GetProject req pathParams
          = call_client client_GetProject protoReq
        \<and> local_request_ProjectService_GetProject_0 rt marshaler server_GetProject req pathParams
          = call_server server_GetProject protoReq))
   \<and> ((\<exists>msg. request_ProjectService_ListProjects_0 rt marshaler client_ListProjects req pathParams = reject msg
        \<and> local_request_ProjectService_ListProjects_0 rt marshaler server_ListProjects req pathParams = reject msg)
    \<or> (\<exists>protoReq.
        request_ProjectService_ListProjects_0 rt marshaler client_ListProjects req pathParams
          = call_client client_ListProjects protoReq
        \<and> local_request_ProjectService_ListProjects_0 rt marshaler server_ListProjects req pathParams
          = call_server server_ListProjects protoReq))
   \<and> ((\<exists>msg. request_ProjectService_CreateProject_0 rt marshaler client_CreateProject req pathParams = reject msg
        \<and> local_request_ProjectService_CreateProject_0 rt marshaler server_CreateProject req pathParams = reject msg)
    \<or> (\<exists>protoReq.
        request_ProjectService_CreateProject_0 rt marshaler client_CreateProject req pathParams
          = call_client client_CreateProject protoReq
        \<and> local_request_ProjectService_CreateProject_0 rt marshaler server_CreateProject req pathParams
          = call_server server_CreateProject protoReq))
   \<and> ((\<exists>msg. request_ProjectService_UpdateProject_0 rt marshaler client_UpdateProject req pathParams = reject msg
        \<and> local_request_ProjectService_UpdateProject_0 rt marshaler server_UpdateProject req pathParams = reject msg)
    \<or> (\<exists>protoReq.
        request_ProjectService_UpdateProject_0 rt marshaler client_UpdateProject req pathParams
          = call_client client_UpdateProject protoReq
        \<and> local_request_ProjectService_UpdateProject_0 rt marshaler server_UpdateProject req pathParams
          = call_server server_UpdateProject protoReq))
   \<and> ((\<exists>msg. request_ProjectService_DeleteProject_0 rt marshaler client_DeleteProject req pathParams = reject msg
        \<and> local_request_ProjectService_DeleteProject_0 rt marshaler server_DeleteProject req pathParams = reject msg)
    \<or> (\<exists>protoReq.
        request_ProjectService_DeleteProject_0 rt marshaler client_DeleteProject req pathParams
          = call_client client_DeleteProject protoReq
        \<and> local_request_ProjectService_DeleteProject_0 rt marshaler server_DeleteProject req pathParams
          = call_server server_DeleteProject protoReq))
   \<and> ((\<exists>msg. request_ProjectService_UndeleteProject_0 rt marshaler client_UndeleteProject req pathParams = reject msg
        \<and> local_request_ProjectService_UndeleteProject_0 rt marshaler server_UndeleteProject req pathParams = reject msg)
    \<or> (\<exists>protoReq.
        request_ProjectService_UndeleteProject_0 rt marshaler client_UndeleteProject req pathParams
          = call_client client_UndeleteProject protoReq
        \<and> local_request_ProjectService_UndeleteProject_0 rt marshaler server_UndeleteProject req pathParams
          = call_server server_UndeleteProject protoReq))"
  using GetProject_rejects [of rt pathParams marshaler client_GetProject req server_GetProject]
    GetProject_invokes [of rt pathParams _ marshaler client_GetProject req server_GetProject]
    ListProjects_rejects [of rt req marshaler client_ListProjects pathParams server_ListProjects]
    ListProjects_invokes [of rt req _ marshaler client_ListProjects pathParams server_ListProjects]
    CreateProject_rejects [of rt marshaler req client_CreateProject pathParams server_CreateProject]
    CreateProject_invokes [of rt marshaler req _ client_CreateProject pathParams server_CreateProject]
    UpdateProject_rejects [of rt marshaler req pathParams client_UpdateProject server_UpdateProject]
    UpdateProject_invokes [of rt marshaler req pathParams _ client_UpdateProject server_UpdateProject]
    DeleteProject_rejects [of rt pathParams marshaler client_DeleteProject req server_DeleteProject]
    DeleteProject_invokes [of rt pathParams _ marshaler client_DeleteProject req server_DeleteProject]
    UndeleteProject_rejects [of rt marshaler req pathParams client_UndeleteProject server_UndeleteProject]
    UndeleteProject_invokes [of rt marshaler req pathParams _ client_UndeleteProject server_UndeleteProject]
  by blast

subsection \<open>The order of the binding steps\<close>

lemmas step_defs =
  body_decode_CreateProject_def body_decode_UpdateProject_def body_decode_UndeleteProject_def
  mask_derivation_UpdateProject_def path_binding_GetProject_def path_binding_DeleteProject_def
  path_binding_UndeleteProject_def path_binding_UpdateProject_def
  query_binding_ListProjects_def query_binding_CreateProject_def query_binding_UpdateProject_def

lemma request_GetProject_steps:
  "request_ProjectService_GetProject_0 rt marshaler client_GetProject req pathParams =
     finish (call_client client_GetProject)
       (run_steps
         [path_binding_GetProject rt pathParams]
         zero_GetProjectRequest)"
  unfolding request_ProjectService_GetProject_0_def Let_def finish_def step_defs
  by (simp split: sum.split option.split prod.split)

lemma local_request_GetProject_steps:
  "local_request_ProjectService_GetProject_0 rt marshaler server_GetProject req pathParams =
     finish (call_server server_GetProject)
       (run_steps
         [path_binding_GetProject rt pathParams]
         zero_GetProjectRequest)"
  unfolding local_request_ProjectService_GetProject_0_def Let_def finish_def step_defs
  by (simp split: sum.split option.split prod.split)

lemma request_ListProjects_steps:
  "request_ProjectService_ListProjects_0 rt marshaler client_ListProjects req pathParams =
     finish (call_client client_ListProjects)
       (run_steps
         [query_binding_ListProjects rt req]
         zero_ListProjectsRequest)"
  unfolding request_ProjectService_ListProjects_0_def Let_def finish_def step_defs
  by (simp split: sum.split option.split prod.split)

lemma local_request_ListProjects_steps:
  "local_request_ProjectService_ListProjects_0 rt marshaler server_ListProjects req pathParams =
     finish (call_server server_ListProjects)
       (run_steps
         [query_binding_ListProjects rt req]
         zero_ListProjectsRequest)"
  unfolding local_request_ProjectService_ListProjects_0_def Let_def finish_def step_defs
  by (simp split: sum.split option.split prod.split)

lemma request_CreateProject_steps:
  "request_ProjectService_CreateProject_0 rt marshaler client_CreateProject req pathParams =
     finish (call_client client_CreateProject)
       (run_steps
         [body_decode_CreateProject rt marshaler req,
          query_binding_CreateProject rt req]
         zero_CreateProjectRequest)"
  unfolding request_ProjectService_CreateProject_0_def Let_def finish_def step_defs
  by (simp split: sum.split option.split prod.split)

lemma local_request_CreateProject_steps:
  "local_request_ProjectService_CreateProject_0 rt marshaler server_CreateProject req pathParams =
     finish (call_server server_CreateProject)
       (run_steps
         [body_decode_CreateProject rt marshaler req,
          query_binding_CreateProject rt req]
         zero_CreateProjectRequest)"
  unfolding local_request_ProjectService_CreateProject_0_def Let_def finish_def step_defs
  by (simp split: sum.split option.split prod.split)

lemma request_UpdateProject_steps:
  "request_ProjectService_UpdateProject_0 rt marshaler client_UpdateProject req pathParams =
     finish (call_client client_UpdateProject)
       (run_steps
         [body_decode_UpdateProject rt marshaler req,
          mask_derivation_UpdateProject rt req,
          path_binding_UpdateProject rt pathParams,
          query_binding_UpdateProject rt req]
         zero_UpdateProjectRequest)"
  unfolding request_ProjectService_UpdateProject_0_def Let_def finish_def step_defs
  by (simp split: sum.split option.split prod.split)

lemma local_request_UpdateProject_steps:
  "local_request_ProjectService_UpdateProject_0 rt marshaler server_UpdateProject req pathParams =
     finish (call_server server_UpdateProject)
       (run_steps
         [body_decode_UpdateProject rt marshaler req,
          mask_derivation_UpdateProject rt req,
          path_binding_UpdateProject rt pathParams,
          query_binding_UpdateProject rt req]
         zero_UpdateProjectRequest)"
  unfolding local_request_ProjectService_UpdateProject_0_def Let_def finish_def step_defs
  by (simp split: sum.split option.split prod.split)

lemma request_DeleteProject_steps:
  "request_ProjectService_DeleteProject_0 rt marshaler client_DeleteProject req pathParams =
     finish (call_client client_DeleteProject)
       (run_steps
         [path_binding_DeleteProject rt pathParams]
         zero_DeleteProjectRequest)"
  unfolding request_ProjectService_DeleteProject_0_def Let_def finish_def step_defs
  by (simp split: sum.split option.split prod.split)

lemma local_request_DeleteProject_steps:
  "local_request_ProjectService_DeleteProject_0 rt marshaler server_DeleteProject req pathParams =
     finish (call_server server_DeleteProject)
       (run_steps
         [path_binding_DeleteProject rt pathParams]
         zero_DeleteProjectRequest)"
  unfolding local_request_ProjectService_DeleteProject_0_def Let_def finish_def step_defs
  by (simp split: sum.split option.split prod.split)

lemma request_UndeleteProject_steps:
  "request_ProjectService_UndeleteProject_0 rt marshaler client_UndeleteProject req pathParams =
     finish (call_client client_UndeleteProject)
       (run_steps
         [body_decode_UndeleteProject rt marshaler req,
          path_binding_UndeleteProject rt pathParams]
         zero_UndeleteProjectRequest)"
  unfolding request_ProjectService_UndeleteProject_0_def Let_def finish_def step_defs
  by (simp split: sum.split option.split prod.split)

lemma local_request_UndeleteProject_steps:
  "local_request_ProjectService_UndeleteProject_0 rt marshaler server_UndeleteProject req pathParams =
     finish (call_server server_UndeleteProject)
       (run_steps
         [body_decode_UndeleteProject rt marshaler req,
          path_binding_UndeleteProject rt pathParams]
         zero_UndeleteProjectRequest)"
  unfolding local_request_ProjectService_UndeleteProject_0_def Let_def finish_def step_defs
  by (simp split: sum.split option.split prod.split)

text \<open>
  Claim C7. Every source function is the run of the binding steps of its route in the
  fixed order body decoding, update-mask derivation, path binding, query binding (a route
  runs the steps it has, in that order), started on the zero request: each step receives
  the request as the steps before it left it, the first failing step ends the run, and
  the stub is invoked on the request that the last step returns.
\<close>

theorem binding_steps_run_in_fixed_order:
  "(request_ProjectService_GetProject_0 rt marshaler client_GetProject req pathParams =
     finish (call_client client_GetProject)
       (run_steps
         [path_binding_GetProject rt pathParams]
         zero_GetProjectRequest))
   \<and> (local_request_ProjectService_GetProject_0 rt marshaler server_GetProject req pathParams =
     finish (call_server server_GetProject)
       (run_steps
         [path_binding_GetProject rt pathParams]
         zero_GetProjectRequest))
   \<and> (request_ProjectService_ListProjects_0 rt marshaler client_ListProjects req pathParams =
     finish (call_client client_ListProjects)
       (run_steps
         [query_binding_ListProjects rt req]
         zero_ListProjectsRequest))
   \<and> (local_request_ProjectService_ListProjects_0 rt marshaler server_ListProjects req pathParams =
     finish (call_server server_ListProjects)
       (run_steps
         [query_binding_ListProjects rt req]
         zero_ListProjectsRequest))
   \<and> (request_ProjectService_CreateProject_0 rt marshaler client_CreateProject req pathParams =
     finish (call_client client_CreateProject)
       (run_steps
         [body_decode_CreateProject rt marshaler req,
          query_binding_CreateProject rt req]
         zero_CreateProjectRequest))
   \<and> (local_request_ProjectService_CreateProject_0 rt marshaler server_CreateProject req pathParams =
     finish (call_server server_CreateProject)
       (run_steps
         [body_decode_CreateProject rt marshaler req,
          query_binding_CreateProject rt req]
         zero_CreateProjectRequest))
   \<and> (request_ProjectService_UpdateProject_0 rt marshaler client_UpdateProject req pathParams =
     finish (call_client client_UpdateProject)
       (run_steps
         [body_decode_UpdateProject rt marshaler req,
          mask_derivation_UpdateProject rt req,
          path_binding_UpdateProject rt pathParams,
          query_binding_UpdateProject rt req]
         zero_UpdateProjectRequest))
   \<and> (local_request_ProjectService_UpdateProject_0 rt marshaler server_UpdateProject req pathParams =
     finish (call_server server_UpdateProject)
       (run_steps
         [body_decode_UpdateProject rt marshaler req,
          mask_derivation_UpdateProject rt req,
          path_binding_UpdateProject rt pathParams,
          query_binding_UpdateProject rt req]
         zero_UpdateProjectRequest))
   \<and> (request_ProjectService_DeleteProject_0 rt marshaler client_DeleteProject req pathParams =
     finish (call_client client_DeleteProject)
       (run_steps
         [path_binding_DeleteProject rt pathParams]
         zero_DeleteProjectRequest))
   \<and> (local_request_ProjectService_DeleteProject_0 rt marshaler server_DeleteProject req pathParams =
     finish (call_server server_DeleteProject)
       (run_steps
         [path_binding_DeleteProject rt pathParams]
         zero_DeleteProjectRequest))
   \<and> (request_ProjectService_UndeleteProject_0 rt marshaler client_UndeleteProject req pathParams =
     finish (call_client client_UndeleteProject)
       (run_steps
         [body_decode_UndeleteProject rt marshaler req,
          path_binding_UndeleteProject rt pathParams]
         zero_UndeleteProjectRequest))
   \<and> (local_request_ProjectService_UndeleteProject_0 rt marshaler server_UndeleteProject req pathParams =
     finish (call_server server_UndeleteProject)
       (run_steps
         [body_decode_UndeleteProject rt marshaler req,
          path_binding_UndeleteProject rt pathParams]
         zero_UndeleteProjectRequest))"
  by (intro conjI) (rule request_GetProject_steps local_request_GetProject_steps request_ListProjects_steps local_request_ListProjects_steps request_CreateProject_steps local_request_CreateProject_steps request_UpdateProject_steps local_request_UpdateProject_steps request_DeleteProject_steps local_request_DeleteProject_steps request_UndeleteProject_steps local_request_UndeleteProject_steps)+

subsection \<open>A request without a body\<close>



subsection \<open>The update mask\<close>

text \<open>
  In both update functions the body is decoded onto the project field alone, so the
  request still has no mask when the block that derives the mask is reached.
\<close>

lemma mask_absent_after_body_decode:
  "body_decode_UpdateProject rt marshaler req zero_UpdateProjectRequest = Inr protoReq \<Longrightarrow>
   UpdateProjectRequest_UpdateMask protoReq = None"
  unfolding body_decode_UpdateProject_def zero_UpdateProjectRequest_def
  by (auto split: sum.splits prod.splits if_splits)







subsection \<open>The derived mask\<close>

lemma walk_keys_snoc:
  "walk_keys declared (ks @ [k]) paths =
     (if k \<in> set declared \<and> k \<notin> set (walk_keys declared ks paths)
      then walk_keys declared ks paths @ [k] else walk_keys declared ks paths)"
  by (induction ks arbitrary: paths) simp_all

lemma set_walk_keys:
  "set (walk_keys declared ks []) = {k \<in> set ks. k \<in> set declared}"
proof (induction ks rule: rev_induct)
  case Nil
  show ?case by simp
next
  case (snoc k ks)
  then show ?case by (auto simp: walk_keys_snoc)
qed

lemma walk_keys_first_occurrences:
  "walk_keys declared ks [] = rev (remdups (rev (filter (\<lambda>k. k \<in> set declared) ks)))"
proof (induction ks rule: rev_induct)
  case Nil
  show ?case by simp
next
  case (snoc k ks)
  then show ?case by (simp add: walk_keys_snoc set_walk_keys)
qed

text \<open>
  Claim C4. When the mask is derived (the request has no mask, or a mask without paths)
  from a raw body that is a JSON object, the derivation does not fail and the mask lists
  the top-level keys of the object that name a declared field of the project, each once,
  in the order of their first occurrence in the body; a key that names no declared field
  is passed over. In particular the raw body \<^verbatim>\<open>{"title":"x"}\<close> gives exactly the mask
  \<^verbatim>\<open>["title"]\<close>.
\<close>

theorem derived_mask_is_declared_keys_in_order:
  "derive_UpdateMask spec_runtime (Body_Json (JObj kvs))
      \<lparr>UpdateProjectRequest_Project = project, UpdateProjectRequest_UpdateMask = None\<rparr>
     = Inr \<lparr>UpdateProjectRequest_Project = project,
            UpdateProjectRequest_UpdateMask =
              Some \<lparr>Paths = rev (remdups (rev (filter (\<lambda>k. k \<in> set Project_fields)
                                                    (map fst kvs))))\<rparr>\<rparr>
   \<and> derive_UpdateMask spec_runtime (Body_Json (JObj kvs))
      \<lparr>UpdateProjectRequest_Project = project,
       UpdateProjectRequest_UpdateMask = Some \<lparr>Paths = []\<rparr>\<rparr>
     = Inr \<lparr>UpdateProjectRequest_Project = project,
            UpdateProjectRequest_UpdateMask =
              Some \<lparr>Paths = rev (remdups (rev (filter (\<lambda>k. k \<in> set Project_fields)
                                                    (map fst kvs))))\<rparr>\<rparr>
   \<and> spec_FieldMaskFromRequestBody (Body_Json (JObj [(''title'', JStr ''x'')])) project
     = Inr \<lparr>Paths = [''title'']\<rparr>
   \<and> spec_FieldMaskFromRequestBody
        (Body_Json (JObj [(''title'', JStr ''x''), (''colour'', JNum 3), (''name'', JStr ''n''),
                          (''title'', JStr ''y'')])) project
     = Inr \<lparr>Paths = [''title'', ''name'']\<rparr>"
  unfolding derive_UpdateMask_def
  by (simp add: spec_runtime_def spec_FieldMaskFromRequestBody_def walk_keys_first_occurrences
      Project_fields_def)

subsection \<open>The update scenario\<close>

text \<open>
  Both update functions decode the whole body onto the project field and derive the mask
  from the top-level keys of the whole body. A body that wraps the project in a member
  \<^verbatim>\<open>project\<close> has that member as its only top-level key, and \<^verbatim>\<open>project\<close> names no field of
  a project: whatever the decoder makes of such a body, the derived mask is empty, and
  without a query that is the mask of the request.
\<close>

lemma wrapped_body_derives_empty_mask:
  assumes "binds_UpdateProject spec_runtime marshaler
             \<lparr>Body = Body_Json (JObj [(''project'', v)]), ParseForm = Inr []\<rparr> pathParams protoReq"
  shows "UpdateProjectRequest_UpdateMask protoReq = Some \<lparr>Paths = []\<rparr>"
  using assms
  by (auto simp: binds_UpdateProject.simps spec_runtime_def derive_UpdateMask_def
      zero_UpdateProjectRequest_def spec_FieldMaskFromRequestBody_def Project_fields_def
      spec_PopulateFieldFromPath_def Let_def split: if_splits)

text \<open>
  Claim C1, as stated, fails: for the body \<^verbatim>\<open>{"project":{"title":"New"}}\<close> the request
  handed to the service operation has the name from the path, but an empty title and an
  empty mask.
\<close>

theorem wrapped_update_body_counterexample:
  "fst (local_request_ProjectService_UpdateProject_0 spec_runtime json_Marshaler
          (ok_server :: UpdateProjectRequest \<Rightarrow> error + Project)
          \<lparr>Body = Body_Json (JObj [(''project'', JObj [(''title'', JStr ''New'')])]),
           ParseForm = Inr []\<rparr>
          [''project.name'' \<mapsto> ''projects/my-proj''])
     = [\<lparr>UpdateProjectRequest_Project =
           Some \<lparr>Project_Name = ''projects/my-proj'', Project_Title = []\<rparr>,
         UpdateProjectRequest_UpdateMask = Some \<lparr>Paths = []\<rparr>\<rparr>]
   \<and> fst (local_request_ProjectService_UpdateProject_0 spec_runtime json_Marshaler
          (ok_server :: UpdateProjectRequest \<Rightarrow> error + Project)
          \<lparr>Body = Body_Json (JObj [(''project'', JObj [(''title'', JStr ''New'')])]),
           ParseForm = Inr []\<rparr>
          [''project.name'' \<mapsto> ''projects/my-proj''])
     \<noteq> [\<lparr>UpdateProjectRequest_Project =
           Some \<lparr>Project_Name = ''projects/my-proj'', Project_Title = ''New''\<rparr>,
         UpdateProjectRequest_UpdateMask = Some \<lparr>Paths = [''title'']\<rparr>\<rparr>]"
  unfolding local_request_ProjectService_UpdateProject_0_def Let_def
  by (simp add: spec_runtime_def json_Marshaler_def zero_UpdateProjectRequest_def
      zero_Project_def call_server_def derive_UpdateMask_def spec_FieldMaskFromRequestBody_def
      Project_fields_def spec_PopulateFieldFromPath_def)

text \<open>
  Claim C1, amended. For a \<^verbatim>\<open>PATCH\<close> request to \<^verbatim>\<open>/v1/projects/my-proj\<close> whose JSON body is the
  project itself, \<^verbatim>\<open>{"title":"New"}\<close>, and which carries no explicit update mask, the request
  handed to the \<^verbatim>\<open>UpdateProject\<close> operation has the project name \<^verbatim>\<open>projects/my-proj\<close>, the
  project title \<^verbatim>\<open>New\<close> and the update mask \<^verbatim>\<open>["title"]\<close>, in both modes.
\<close>

theorem update_scenario_with_project_body:
  "local_request_ProjectService_UpdateProject_0 spec_runtime json_Marshaler server
      \<lparr>Body = Body_Json (JObj [(''title'', JStr ''New'')]), ParseForm = Inr []\<rparr>
      [''project.name'' \<mapsto> ''projects/my-proj'']
     = call_server server
         \<lparr>UpdateProjectRequest_Project =
            Some \<lparr>Project_Name = ''projects/my-proj'', Project_Title = ''New''\<rparr>,
          UpdateProjectRequest_UpdateMask = Some \<lparr>Paths = [''title'']\<rparr>\<rparr>
   \<and> request_ProjectService_UpdateProject_0 spec_runtime json_Marshaler client
      \<lparr>Body = Body_Json (JObj [(''title'', JStr ''New'')]), ParseForm = Inr []\<rparr>
      [''project.name'' \<mapsto> ''projects/my-proj'']
     = call_client client
         \<lparr>UpdateProjectRequest_Project =
            Some \<lparr>Project_Name = ''projects/my-proj'', Project_Title = ''New''\<rparr>,
          UpdateProjectRequest_UpdateMask = Some \<lparr>Paths = [''title'']\<rparr>\<rparr>"
  unfolding local_request_ProjectService_UpdateProject_0_def
    request_ProjectService_UpdateProject_0_def Let_def
  by (simp add: spec_runtime_def json_Marshaler_def zero_UpdateProjectRequest_def
      zero_Project_def derive_UpdateMask_def spec_FieldMaskFromRequestBody_def
      Project_fields_def spec_PopulateFieldFromPath_def)

subsection \<open>The path parameter and the body\<close>




subsection \<open>Requests with a query\<close>

text \<open>
  The modelled query binder on forms that are not empty: a list request with paging
  parameters, a list request whose page size is no numeral, and an update request whose
  query names the project again and gives an explicit mask.
\<close>

lemma list_query_is_bound:
  "local_request_ProjectService_ListProjects_0 spec_runtime json_Marshaler server
      \<lparr>Body = Body_Empty,
       ParseForm = Inr [(''page_size'', [''50'']), (''show_deleted'', [''true'']),
                        (''colour'', [''red''])]\<rparr> Map.empty
     = call_server server
         \<lparr>ListProjectsRequest_PageSize = 50, ListProjectsRequest_PageToken = [],
          ListProjectsRequest_ShowDeleted = True\<rparr>"
  unfolding local_request_ProjectService_ListProjects_0_def Let_def
  by (simp add: spec_runtime_def zero_ListProjectsRequest_def filter_excludes_def
      first_segment_def filter_ProjectService_ListProjects_0_def parse_int32_def digit_def)

lemma list_query_type_mismatch_is_rejected:
  "local_request_ProjectService_ListProjects_0 spec_runtime json_Marshaler server
      \<lparr>Body = Body_Empty, ParseForm = Inr [(''page_size'', [''many''])]\<rparr> Map.empty
     = reject ''invalid integer value many''
   \<and> request_ProjectService_ListProjects_0 spec_runtime json_Marshaler client
      \<lparr>Body = Body_Empty, ParseForm = Inr [(''page_size'', [''many''])]\<rparr> Map.empty
     = reject ''invalid integer value many''"
  unfolding local_request_ProjectService_ListProjects_0_def
    request_ProjectService_ListProjects_0_def Let_def
  by (simp add: spec_runtime_def zero_ListProjectsRequest_def filter_excludes_def
      first_segment_def filter_ProjectService_ListProjects_0_def parse_int32_def digit_def)

lemma update_query_is_bound_after_the_path:
  "request_ProjectService_UpdateProject_0 spec_runtime json_Marshaler client
      \<lparr>Body = Body_Json (JObj [(''title'', JStr ''New'')]),
       ParseForm = Inr [(''project.name'', [''projects/other'']),
                        (''update_mask'', [''title,owner''])]\<rparr>
      [''project.name'' \<mapsto> ''projects/my-proj'']
     = call_client client
         \<lparr>UpdateProjectRequest_Project =
            Some \<lparr>Project_Name = ''projects/my-proj'', Project_Title = ''New''\<rparr>,
          UpdateProjectRequest_UpdateMask = Some \<lparr>Paths = [''title'', ''owner'']\<rparr>\<rparr>"
  unfolding request_ProjectService_UpdateProject_0_def Let_def
  by (simp add: spec_runtime_def json_Marshaler_def zero_UpdateProjectRequest_def
      zero_Project_def derive_UpdateMask_def spec_FieldMaskFromRequestBody_def
      Project_fields_def spec_PopulateFieldFromPath_def filter_excludes_def first_segment_def
      filter_ProjectService_UpdateProject_0_def)

end
